theory Spec2Isabelle
  imports Main
begin

section \<open>The visitor record\<close>

text \<open>
  The Go struct \<^verbatim>\<open>visitors\<close> of \<^verbatim>\<open>gatekeeper-advanced.go\<close>: two strings, bound
  from and rendered to the JSON fields \<^verbatim>\<open>name\<close> and \<^verbatim>\<open>plate\<close>.
\<close>

record visitors =
  Name :: string
  Plate :: string

section \<open>The database behind \<^verbatim>\<open>*sql.DB\<close>\<close>

text \<open>
  The database engine is not part of the repository. It is modelled as the one table
  \<^verbatim>\<open>visitors(name TEXT, plate TEXT)\<close>, a list of rows in insertion order, together with
  the kinds of call that currently fail on the server and the statements received so far.
  Columns hold strings only (the program never stores NULL), so \<^verbatim>\<open>rows.Scan\<close> into two
  Go strings cannot fail. The comparison \<^verbatim>\<open>plate = ...\<close> is equality of strings.
\<close>

datatype db_op = Connect | SelectRows | InsertRow | DeleteRows

datatype db_error = ConnectionError | SyntaxError | ServerError

text \<open>
  A value reaches a statement in one of two ways in the source: as a bound parameter
  (\<^verbatim>\<open>WHERE plate = ?\<close> with the value passed beside the text), or pasted into the
  text of the statement between two apostrophes (\<^verbatim>\<open>`WHERE plate = '` + plate + `'`\<close>).
  \<open>Spliced\<close> carries the pasted text, apostrophes included, as the engine receives it.
\<close>

datatype operand = Bound string | Spliced string

datatype stmt =
    SelectAll
  | SelectWhere operand
  | InsertValues string string
  | DeleteWhere operand

record database =
  table :: "visitors list"
  faults :: "db_op set"
  issued :: "stmt list"

definition apostrophe :: char where
  "apostrophe = CHR 0x27"

definition backslash :: char where
  "backslash = CHR 0x5C"

text \<open>The Go expression \<^verbatim>\<open>"'" + s + "'"\<close>.\<close>

definition quoted :: "string \<Rightarrow> string" where
  "quoted s = apostrophe # s @ [apostrophe]"

text \<open>
  How the engine reads a quoted string literal, from the character after the opening
  apostrophe. The model recognises plain literals: characters other than apostrophe and
  backslash, up to an apostrophe that ends the text. For every other text the statement
  fails in the model. A real engine fails as well when an apostrophe is left open, as in
  \<^verbatim>\<open>'O'Neil'\<close>; a doubled apostrophe, a backslash escape (MySQL, the engine of the
  deployment file) or text that is itself valid SQL after the closing apostrophe is read
  differently by a real engine. The evaluations at concrete inputs below use no such
  text, and the general theorems either exclude it (\<open>sql_safe\<close>) or hold however it
  is read.
\<close>

fun literal_body :: "string \<Rightarrow> string option" where
  "literal_body [] = None"
| "literal_body (c # cs) =
     (if c = apostrophe then (if cs = [] then Some [] else None)
      else if c = backslash then None
      else map_option ((#) c) (literal_body cs))"

fun sql_literal :: "string \<Rightarrow> string option" where
  "sql_literal [] = None"
| "sql_literal (c # cs) = (if c = apostrophe then literal_body cs else None)"

fun operand_value :: "operand \<Rightarrow> string option" where
  "operand_value (Bound v) = Some v"
| "operand_value (Spliced t) = sql_literal t"

text \<open>
  \<^verbatim>\<open>db.Query(text, args...)\<close>: the source sends reads and writes alike through
  \<^verbatim>\<open>Query\<close>. The result is the error or the rows, and the database afterwards.
\<close>

definition received :: "database \<Rightarrow> stmt \<Rightarrow> database" where
  "received db q = db\<lparr>issued := issued db @ [q]\<rparr>"

fun db_Query :: "database \<Rightarrow> stmt \<Rightarrow> (db_error + visitors list) \<times> database" where
  "db_Query db SelectAll =
     (if SelectRows \<in> faults db then (Inl ServerError, received db SelectAll)
      else (Inr (table db), received db SelectAll))"
| "db_Query db (SelectWhere w) =
     (case operand_value w of
        None \<Rightarrow> (Inl SyntaxError, received db (SelectWhere w))
      | Some v \<Rightarrow>
          if SelectRows \<in> faults db then (Inl ServerError, received db (SelectWhere w))
          else (Inr (filter (\<lambda>r. Plate r = v) (table db)), received db (SelectWhere w)))"
| "db_Query db (InsertValues n p) =
     (if InsertRow \<in> faults db then (Inl ServerError, received db (InsertValues n p))
      else (Inr [],
            (received db (InsertValues n p))
              \<lparr>table := table db @ [\<lparr>Name = n, Plate = p\<rparr>]\<rparr>))"
| "db_Query db (DeleteWhere w) =
     (case operand_value w of
        None \<Rightarrow> (Inl SyntaxError, received db (DeleteWhere w))
      | Some v \<Rightarrow>
          if DeleteRows \<in> faults db then (Inl ServerError, received db (DeleteWhere w))
          else (Inr [],
                (received db (DeleteWhere w))
                  \<lparr>table := filter (\<lambda>r. Plate r \<noteq> v) (table db)\<rparr>))"

text \<open>
  Modelled from the spec: \<^verbatim>\<open>initializeDB\<close> is a stub in the source (it returns no
  handle and no error); the spec gives its contract as
  \<^verbatim>\<open>connect(config) -> Connection | Error\<close>. The model returns the error, if any; the
  handle is the database itself.
\<close>

definition initializeDB :: "database \<Rightarrow> db_error option" where
  "initializeDB db = (if Connect \<in> faults db then Some ConnectionError else None)"

section \<open>How a Go function ends\<close>

text \<open>
  A function returns a value, ends the process (\<^verbatim>\<open>log.Fatalf\<close>), or panics (here
  always by calling \<^verbatim>\<open>rows.Next()\<close> on the nil \<^verbatim>\<open>*sql.Rows\<close> that a failed
  \<^verbatim>\<open>db.Query\<close> returned and whose error the caller dropped).
\<close>

datatype 'a run = Returns 'a | Exits | Panics

datatype status =
    StatusOK
  | StatusCreated
  | StatusBadRequest
  | StatusNotFound
  | StatusConflict
  | StatusInternalServerError

fun status_code :: "status \<Rightarrow> nat" where
  "status_code StatusOK = 200"
| "status_code StatusCreated = 201"
| "status_code StatusBadRequest = 400"
| "status_code StatusNotFound = 404"
| "status_code StatusConflict = 409"
| "status_code StatusInternalServerError = 500"

datatype body = Message string | VisitorList "visitors list" | Visitor visitors

text \<open>
  What a handler wrote with \<^verbatim>\<open>c.JSON(status, body)\<close>; \<open>NoReply\<close> when it returned
  without calling \<^verbatim>\<open>c.JSON\<close>.
\<close>

datatype reply = Response status body | NoReply

section \<open>Registry operations\<close>

text \<open>
  The loop of \<^verbatim>\<open>getVisitorsFromDB\<close> over the rows: scan, append, and the check of the
  length after the append. A Go nil slice and an empty list are the same value here:
  \<^verbatim>\<open>visitorList\<close> starts nil, \<^verbatim>\<open>append\<close> never yields an empty slice, so the result is
  nil exactly when it is \<open>[]\<close>.
\<close>

fun scan_rows :: "visitors list \<Rightarrow> visitors list \<Rightarrow> visitors list" where
  "scan_rows [] visitorList = visitorList"
| "scan_rows (r # rs) visitorList =
     (let visitor = \<lparr>Name = Name r, Plate = Plate r\<rparr>;
          visitorList' = visitorList @ [visitor]
      in if length visitorList' = 0 then [] else scan_rows rs visitorList')"

definition getVisitorsFromDB :: "database \<Rightarrow> string \<Rightarrow> visitors list run \<times> database" where
  "getVisitorsFromDB db EnteredPlate =
     (if initializeDB db \<noteq> None then (Exits, db)
      else
        let (res, db') =
              (if EnteredPlate = [] then db_Query db SelectAll
               else db_Query db (SelectWhere (Bound EnteredPlate)))
        in case res of
             Inl e \<Rightarrow> (Panics, db')
           | Inr rows \<Rightarrow> (Returns (scan_rows rows []), db'))"

text \<open>The loop of \<^verbatim>\<open>checkPlateAlreadyInDB\<close>: true at the first row whose plate is the given one.\<close>

fun plate_among :: "visitors list \<Rightarrow> string \<Rightarrow> bool" where
  "plate_among [] givenPlate = False"
| "plate_among (r # rs) givenPlate =
     (if Plate r = givenPlate then True else plate_among rs givenPlate)"

definition checkPlateAlreadyInDB :: "database \<Rightarrow> string \<Rightarrow> bool run \<times> database" where
  "checkPlateAlreadyInDB db givenPlate =
     (let (res, db') = db_Query db (SelectWhere (Spliced (quoted givenPlate)))
      in case res of
           Inl e \<Rightarrow> (Panics, db')
         | Inr rows \<Rightarrow> (Returns (plate_among rows givenPlate), db'))"

definition addNewVisitorToDB :: "database \<Rightarrow> visitors \<Rightarrow> unit run \<times> database" where
  "addNewVisitorToDB db visitor =
     (if initializeDB db \<noteq> None then (Exits, db)
      else
        let (res, db') = db_Query db (InsertValues (Name visitor) (Plate visitor))
        in case res of
             Inl e \<Rightarrow> (Exits, db')
           | Inr rows \<Rightarrow> (Returns (), db'))"

text \<open>
  The statement that \<^verbatim>\<open>removeVisitor\<close> and \<^verbatim>\<open>removePlate\<close> both build and send:
  \<^verbatim>\<open>DELETE FROM visitors WHERE plate = '\<close> + plate + \<^verbatim>\<open>'\<close>.
\<close>

definition deleteByPlate :: "database \<Rightarrow> string \<Rightarrow> (db_error + visitors list) \<times> database" where
  "deleteByPlate db plate = db_Query db (DeleteWhere (Spliced (quoted plate)))"

section \<open>HTTP handlers\<close>

text \<open>
  \<^verbatim>\<open>getVisitors\<close> serves \<^verbatim>\<open>GET /visitors\<close> (\<^verbatim>\<open>c.Param("plate")\<close> is the empty string)
  and \<^verbatim>\<open>GET /visitors/:plate\<close>.
\<close>

definition getVisitors :: "database \<Rightarrow> string \<Rightarrow> reply run \<times> database" where
  "getVisitors db plate =
     (case getVisitorsFromDB db plate of
        (Returns results, db') \<Rightarrow>
          if results = [] then
            (Returns (Response StatusNotFound (Message ''Plate is not found in the database'')), db')
          else (Returns (Response StatusOK (VisitorList results)), db')
      | (Exits, db') \<Rightarrow> (Exits, db')
      | (Panics, db') \<Rightarrow> (Panics, db'))"

text \<open>
  \<^verbatim>\<open>addVisitor\<close> serves \<^verbatim>\<open>POST /visitors\<close>. The argument is what \<^verbatim>\<open>c.BindJSON\<close> made of
  the request body: \<open>None\<close> when it returned an error, the bound struct otherwise.
  The variable \<^verbatim>\<open>err\<close> is the one \<^verbatim>\<open>initializeDB\<close> assigned; the source tests it again
  after \<^verbatim>\<open>addNewVisitorToDB\<close>, which returns nothing.
\<close>

definition addVisitor :: "database \<Rightarrow> visitors option \<Rightarrow> reply run \<times> database" where
  "addVisitor db bound =
     (case bound of
        None \<Rightarrow> (Returns NoReply, db)
      | Some newVisitor \<Rightarrow>
          if Name newVisitor = [] \<or> Plate newVisitor = [] then
            (Returns (Response StatusBadRequest (Message ''Name and plate are required'')), db)
          else
            let err = initializeDB db in
            if err \<noteq> None then (Exits, db)
            else
              (case checkPlateAlreadyInDB db (Plate newVisitor) of
                 (Returns True, db1) \<Rightarrow>
                   (Returns (Response StatusConflict (Message ''Plate already in database'')), db1)
               | (Returns False, db1) \<Rightarrow>
                   (case addNewVisitorToDB db1 newVisitor of
                      (Returns u, db2) \<Rightarrow>
                        if err \<noteq> None then
                          (Returns (Response StatusInternalServerError
                                      (Message ''Internal server error'')), db2)
                        else (Returns (Response StatusCreated (Visitor newVisitor)), db2)
                    | (Exits, db2) \<Rightarrow> (Exits, db2)
                    | (Panics, db2) \<Rightarrow> (Panics, db2))
               | (Exits, db1) \<Rightarrow> (Exits, db1)
               | (Panics, db1) \<Rightarrow> (Panics, db1)))"

text \<open>\<^verbatim>\<open>removeVisitor\<close> serves \<^verbatim>\<open>DELETE /visitors/:plate\<close>.\<close>

definition removeVisitor :: "database \<Rightarrow> string \<Rightarrow> reply run \<times> database" where
  "removeVisitor db plate =
     (if initializeDB db \<noteq> None then (Exits, db)
      else
        (case checkPlateAlreadyInDB db plate of
           (Returns False, db1) \<Rightarrow>
             (Returns (Response StatusConflict (Message ''Plate is not found in the database'')), db1)
         | (Returns True, db1) \<Rightarrow>
             (case deleteByPlate db1 plate of
                (Inl e, db2) \<Rightarrow>
                  (Returns (Response StatusInternalServerError
                              (Message ''Internal server error'')), db2)
              | (Inr rows, db2) \<Rightarrow>
                  (Returns (Response StatusOK (Message ''Plate removed'')), db2))
         | (Exits, db1) \<Rightarrow> (Exits, db1)
         | (Panics, db1) \<Rightarrow> (Panics, db1)))"

section \<open>Plates that survive being pasted into a statement\<close>

text \<open>
  A plate without apostrophe and backslash is read back by the engine as itself when it is
  pasted between two apostrophes.
\<close>

definition sql_safe :: "string \<Rightarrow> bool" where
  "sql_safe s = (apostrophe \<notin> set s \<and> backslash \<notin> set s)"

section \<open>Facts about the engine and the loops\<close>

lemma literal_body_safe:
  "sql_safe s \<Longrightarrow> literal_body (s @ [apostrophe]) = Some s"
  by (induction s) (auto simp: sql_safe_def)

lemma sql_literal_quoted:
  "sql_safe s \<Longrightarrow> sql_literal (quoted s) = Some s"
  by (simp add: quoted_def literal_body_safe)

lemma scan_rows_append: "scan_rows rs acc = acc @ rs"
  by (induction rs arbitrary: acc) (simp_all add: Let_def)

lemma plate_among_iff: "plate_among rs p = (p \<in> Plate ` set rs)"
  by (induction rs) auto

lemma plate_among_filter:
  "plate_among (filter (\<lambda>r. Plate r = p) rs) p = (p \<in> Plate ` set rs)"
  by (induction rs) auto

lemma filter_fresh: "p \<notin> Plate ` set rs \<Longrightarrow> filter (\<lambda>r. Plate r = p) rs = []"
  by (induction rs) auto

lemma filter_others: "p \<notin> Plate ` set rs \<Longrightarrow> filter (\<lambda>r. Plate r \<noteq> p) rs = rs"
  by (induction rs) auto

lemma table_received [simp]: "table (received db q) = table db"
  by (simp add: received_def)

lemma faults_received [simp]: "faults (received db q) = faults db"
  by (simp add: received_def)

lemma faults_db_Query: "faults (snd (db_Query db q)) = faults db"
  by (cases q) (simp_all split: option.splits)

section \<open>The registry operations on a working database\<close>

lemma getVisitorsFromDB_healthy:
  assumes "faults db = {}"
  shows "getVisitorsFromDB db p =
           (Returns (if p = [] then table db else filter (\<lambda>r. Plate r = p) (table db)),
            received db (if p = [] then SelectAll else SelectWhere (Bound p)))"
  using assms by (simp add: getVisitorsFromDB_def initializeDB_def scan_rows_append)

lemma checkPlateAlreadyInDB_safe:
  assumes "SelectRows \<notin> faults db" and "sql_safe p"
  shows "checkPlateAlreadyInDB db p =
           (Returns (p \<in> Plate ` set (table db)),
            received db (SelectWhere (Spliced (quoted p))))"
  using assms
  by (simp add: checkPlateAlreadyInDB_def sql_literal_quoted plate_among_filter)

lemma addNewVisitorToDB_healthy:
  assumes "Connect \<notin> faults db" and "InsertRow \<notin> faults db"
  shows "addNewVisitorToDB db v =
           (Returns (),
            (received db (InsertValues (Name v) (Plate v)))\<lparr>table := table db @ [v]\<rparr>)"
  using assms by (simp add: addNewVisitorToDB_def initializeDB_def)

lemma deleteByPlate_safe:
  assumes "DeleteRows \<notin> faults db" and "sql_safe p"
  shows "deleteByPlate db p =
           (Inr [],
            (received db (DeleteWhere (Spliced (quoted p))))
              \<lparr>table := filter (\<lambda>r. Plate r \<noteq> p) (table db)\<rparr>)"
  using assms by (simp add: deleteByPlate_def sql_literal_quoted)

lemma table_getVisitorsFromDB: "table (snd (getVisitorsFromDB db p)) = table db"
  by (simp add: getVisitorsFromDB_def split: prod.splits sum.splits option.splits)

lemma table_checkPlateAlreadyInDB: "table (snd (checkPlateAlreadyInDB db p)) = table db"
  by (simp add: checkPlateAlreadyInDB_def split: prod.splits sum.splits option.splits)

lemma faults_checkPlateAlreadyInDB: "faults (snd (checkPlateAlreadyInDB db p)) = faults db"
proof -
  obtain res db' where q: "db_Query db (SelectWhere (Spliced (quoted p))) = (res, db')"
    by (cases "db_Query db (SelectWhere (Spliced (quoted p)))")
  then have "faults db' = faults db"
    by (metis faults_db_Query snd_conv)
  then show ?thesis
    by (simp add: checkPlateAlreadyInDB_def q del: db_Query.simps split: sum.splits)
qed

section \<open>The handlers on a working database and plates that survive pasting\<close>

lemma addVisitor_safe:
  assumes "faults db = {}" and "sql_safe (Plate v)"
  shows "fst (addVisitor db (Some v)) =
           (if Name v = [] \<or> Plate v = [] then
              Returns (Response StatusBadRequest (Message ''Name and plate are required''))
            else if Plate v \<in> Plate ` set (table db) then
              Returns (Response StatusConflict (Message ''Plate already in database''))
            else Returns (Response StatusCreated (Visitor v)))"
    and "table (snd (addVisitor db (Some v))) =
           (if Name v = [] \<or> Plate v = [] \<or> Plate v \<in> Plate ` set (table db)
            then table db else table db @ [v])"
  using assms
  by (simp_all add: addVisitor_def initializeDB_def checkPlateAlreadyInDB_safe
        addNewVisitorToDB_healthy)

lemma removeVisitor_safe:
  assumes "faults db = {}" and "sql_safe p"
  shows "fst (removeVisitor db p) =
           (if p \<in> Plate ` set (table db)
            then Returns (Response StatusOK (Message ''Plate removed''))
            else Returns (Response StatusConflict (Message ''Plate is not found in the database'')))"
    and "table (snd (removeVisitor db p)) = filter (\<lambda>r. Plate r \<noteq> p) (table db)"
proof -
  have chk: "checkPlateAlreadyInDB db p =
      (Returns (p \<in> Plate ` set (table db)), received db (SelectWhere (Spliced (quoted p))))"
    using assms by (simp add: checkPlateAlreadyInDB_safe)
  have del: "deleteByPlate (received db (SelectWhere (Spliced (quoted p)))) p =
      (Inr [], (received (received db (SelectWhere (Spliced (quoted p))))
                 (DeleteWhere (Spliced (quoted p))))
                 \<lparr>table := filter (\<lambda>r. Plate r \<noteq> p) (table db)\<rparr>)"
    using assms by (simp add: deleteByPlate_safe)
  show "fst (removeVisitor db p) =
           (if p \<in> Plate ` set (table db)
            then Returns (Response StatusOK (Message ''Plate removed''))
            else Returns (Response StatusConflict (Message ''Plate is not found in the database'')))"
    using assms(1) by (simp add: removeVisitor_def initializeDB_def chk del)
  show "table (snd (removeVisitor db p)) = filter (\<lambda>r. Plate r \<noteq> p) (table db)"
  proof (cases "p \<in> Plate ` set (table db)")
    case True
    then show ?thesis
      using assms(1) by (simp add: removeVisitor_def initializeDB_def chk del)
  next
    case False
    then have "filter (\<lambda>r. Plate r \<noteq> p) (table db) = table db"
      by (rule filter_others)
    with False show ?thesis
      using assms(1) by (simp add: removeVisitor_def initializeDB_def chk)
  qed
qed

lemma faults_removeVisitor:
  assumes "faults db = {}"
  shows "faults (snd (removeVisitor db p)) = {}"
proof -
  obtain b db1 where c: "checkPlateAlreadyInDB db p = (b, db1)"
    by (cases "checkPlateAlreadyInDB db p")
  then have f1: "faults db1 = {}"
    using faults_checkPlateAlreadyInDB [of db p] assms by simp
  obtain r db2 where d: "deleteByPlate db1 p = (r, db2)"
    by (cases "deleteByPlate db1 p")
  then have f2: "faults db2 = {}"
    using faults_db_Query [of db1 "DeleteWhere (Spliced (quoted p))"] f1
    by (simp add: deleteByPlate_def)
  show ?thesis
    using assms c d f1 f2
    by (simp add: removeVisitor_def initializeDB_def split: run.splits bool.splits sum.splits)
qed

lemma deleteByPlate_twice_safe:
  assumes "DeleteRows \<notin> faults db" and "sql_safe p"
  shows "fst (deleteByPlate (snd (deleteByPlate db p)) p) = Inr []"
    and "table (snd (deleteByPlate (snd (deleteByPlate db p)) p)) = table (snd (deleteByPlate db p))"
  using assms by (simp_all add: deleteByPlate_safe)

lemma removeVisitor_twice_safe:
  assumes "faults db = {}" and "sql_safe p"
  shows "fst (removeVisitor (snd (removeVisitor db p)) p) =
           Returns (Response StatusConflict (Message ''Plate is not found in the database''))"
    and "table (snd (removeVisitor (snd (removeVisitor db p)) p)) = table (snd (removeVisitor db p))"
proof -
  let ?db' = "snd (removeVisitor db p)"
  have f: "faults ?db' = {}"
    using assms(1) by (rule faults_removeVisitor)
  have t: "table ?db' = filter (\<lambda>r. Plate r \<noteq> p) (table db)"
    using assms by (rule removeVisitor_safe(2))
  then have absent: "p \<notin> Plate ` set (table ?db')"
    by auto
  show "fst (removeVisitor ?db' p) =
           Returns (Response StatusConflict (Message ''Plate is not found in the database''))"
    using absent by (simp add: removeVisitor_safe(1) [OF f assms(2)])
  show "table (snd (removeVisitor ?db' p)) = table ?db'"
    using absent by (simp add: removeVisitor_safe(2) [OF f assms(2)] filter_others)
qed

lemma addNewVisitorToDB_insert_fault:
  assumes "InsertRow \<in> faults db"
  shows "fst (addNewVisitorToDB db v) = Exits"
  using assms by (simp add: addNewVisitorToDB_def split: prod.splits)

lemma removeVisitor_delete_fault:
  assumes "faults db = {DeleteRows}" and "sql_safe p" and "p \<in> Plate ` set (table db)"
  shows "fst (removeVisitor db p) =
           Returns (Response StatusInternalServerError (Message ''Internal server error''))"
  using assms
  by (simp add: removeVisitor_def initializeDB_def checkPlateAlreadyInDB_safe deleteByPlate_def
        sql_literal_quoted)

section \<open>Listing visitors\<close>

text \<open>
  C1, as the code has it: on a database that answers, \<^verbatim>\<open>GET /visitors\<close> without a plate
  makes \<^verbatim>\<open>getVisitorsFromDB\<close> return every row of the table; the handler answers 200
  with that list when the table holds a row, and 404 with the message
  \<^verbatim>\<open>Plate is not found in the database\<close> when the table is empty, because the list is
  then nil and the handler tests for nil whatever the route.
\<close>

theorem getVisitors_all:
  assumes "faults db = {}"
  shows "fst (getVisitorsFromDB db []) = Returns (table db) \<and>
         fst (getVisitors db []) =
           (if table db = []
            then Returns (Response StatusNotFound (Message ''Plate is not found in the database''))
            else Returns (Response StatusOK (VisitorList (table db))))"
  using assms by (simp add: getVisitors_def getVisitorsFromDB_healthy)

theorem getVisitors_all_witness:
  "faults \<lparr>table = [\<lparr>Name = ''Jordy'', Plate = ''ABC-123''\<rparr>, \<lparr>Name = ''Piet'', Plate = ''DEF-456''\<rparr>],
           faults = {}, issued = []\<rparr> = {} \<and>
   fst (getVisitors
          \<lparr>table = [\<lparr>Name = ''Jordy'', Plate = ''ABC-123''\<rparr>, \<lparr>Name = ''Piet'', Plate = ''DEF-456''\<rparr>],
           faults = {}, issued = []\<rparr> []) =
     Returns (Response StatusOK (VisitorList
       [\<lparr>Name = ''Jordy'', Plate = ''ABC-123''\<rparr>, \<lparr>Name = ''Piet'', Plate = ''DEF-456''\<rparr>]))"
  using getVisitors_all
    [of "\<lparr>table = [\<lparr>Name = ''Jordy'', Plate = ''ABC-123''\<rparr>, \<lparr>Name = ''Piet'', Plate = ''DEF-456''\<rparr>],
           faults = {}, issued = []\<rparr>"]
  by simp

text \<open>
  C1 as stated fails on the empty table: the list is empty and the answer is 404, not 200
  with an empty array.
\<close>

theorem getVisitors_empty_registry:
  "fst (getVisitorsFromDB \<lparr>table = [], faults = {}, issued = []\<rparr> []) = Returns [] \<and>
   fst (getVisitors \<lparr>table = [], faults = {}, issued = []\<rparr> []) =
     Returns (Response StatusNotFound (Message ''Plate is not found in the database'')) \<and>
   fst (getVisitors \<lparr>table = [], faults = {}, issued = []\<rparr> []) \<noteq>
     Returns (Response StatusOK (VisitorList []))"
  by (simp add: getVisitors_def getVisitorsFromDB_def initializeDB_def)

text \<open>
  C10: the reads leave the table as it was, whatever the plate and whatever the state of the
  database: \<^verbatim>\<open>getVisitorsFromDB\<close>, the handler \<^verbatim>\<open>getVisitors\<close> on both routes, and
  \<^verbatim>\<open>checkPlateAlreadyInDB\<close>.
\<close>

theorem reads_keep_table:
  "table (snd (getVisitorsFromDB db p)) = table db \<and>
   table (snd (getVisitors db p)) = table db \<and>
   table (snd (checkPlateAlreadyInDB db p)) = table db"
proof -
  have "table (snd (getVisitors db p)) = table (snd (getVisitorsFromDB db p))"
    by (simp add: getVisitors_def split: prod.splits run.splits)
  then show ?thesis
    by (simp add: table_getVisitorsFromDB table_checkPlateAlreadyInDB)
qed

section \<open>Inserting a visitor\<close>

text \<open>
  C2, as the code has it: on a database that answers, for a visitor \<open>v\<close> with a non-empty
  plate, \<^verbatim>\<open>addNewVisitorToDB\<close> always appends the row \<open>v\<close>, and listing by the plate of
  \<open>v\<close> afterwards returns the rows that already had that plate followed by \<open>v\<close>; it is
  the single record \<open>v\<close> when no row had that plate before.
\<close>

theorem insert_then_list:
  assumes "faults db = {}" and "Plate v \<noteq> []"
  shows "fst (addNewVisitorToDB db v) = Returns () \<and>
         table (snd (addNewVisitorToDB db v)) = table db @ [v] \<and>
         fst (getVisitorsFromDB (snd (addNewVisitorToDB db v)) (Plate v)) =
           Returns (filter (\<lambda>r. Plate r = Plate v) (table db) @ [v]) \<and>
         (Plate v \<notin> Plate ` set (table db) \<longrightarrow>
            fst (getVisitorsFromDB (snd (addNewVisitorToDB db v)) (Plate v)) = Returns [v])"
proof -
  let ?db' = "snd (addNewVisitorToDB db v)"
  have ins: "addNewVisitorToDB db v =
      (Returns (), (received db (InsertValues (Name v) (Plate v)))\<lparr>table := table db @ [v]\<rparr>)"
    using assms(1) by (simp add: addNewVisitorToDB_healthy)
  have f: "faults ?db' = {}" and t: "table ?db' = table db @ [v]"
    using assms(1) by (simp_all add: ins)
  have lst: "fst (getVisitorsFromDB ?db' (Plate v)) =
      Returns (filter (\<lambda>r. Plate r = Plate v) (table db) @ [v])"
    using assms(2) by (simp add: getVisitorsFromDB_healthy [OF f] t)
  have "filter (\<lambda>r. Plate r = Plate v) (table db) = []"
    if "Plate v \<notin> Plate ` set (table db)"
    using that by (rule filter_fresh)
  with lst ins t show ?thesis by simp
qed

theorem insert_then_list_witness:
  "faults \<lparr>table = [\<lparr>Name = ''Piet'', Plate = ''DEF-456''\<rparr>], faults = {}, issued = []\<rparr> = {} \<and>
   Plate \<lparr>Name = ''Jordy'', Plate = ''ABC-123''\<rparr> \<noteq> [] \<and>
   fst (getVisitorsFromDB
          (snd (addNewVisitorToDB
                  \<lparr>table = [\<lparr>Name = ''Piet'', Plate = ''DEF-456''\<rparr>], faults = {}, issued = []\<rparr>
                  \<lparr>Name = ''Jordy'', Plate = ''ABC-123''\<rparr>))
          ''ABC-123'') = Returns [\<lparr>Name = ''Jordy'', Plate = ''ABC-123''\<rparr>]"
  using insert_then_list
    [of "\<lparr>table = [\<lparr>Name = ''Piet'', Plate = ''DEF-456''\<rparr>], faults = {}, issued = []\<rparr>"
        "\<lparr>Name = ''Jordy'', Plate = ''ABC-123''\<rparr>"]
  by simp

text \<open>
  C2 as stated fails when the plate is already in the table: the list after the insert
  has two records.
\<close>

theorem insert_duplicate_plate:
  "fst (getVisitorsFromDB
          (snd (addNewVisitorToDB
                  \<lparr>table = [\<lparr>Name = ''Piet'', Plate = ''ABC-123''\<rparr>], faults = {}, issued = []\<rparr>
                  \<lparr>Name = ''Jordy'', Plate = ''ABC-123''\<rparr>))
          ''ABC-123'') =
     Returns [\<lparr>Name = ''Piet'', Plate = ''ABC-123''\<rparr>, \<lparr>Name = ''Jordy'', Plate = ''ABC-123''\<rparr>]"
  by (simp add: getVisitorsFromDB_def addNewVisitorToDB_def initializeDB_def received_def)

text \<open>
  C5 at a failing insert: the table is empty, the engine refuses \<^verbatim>\<open>INSERT\<close>, and
  \<^verbatim>\<open>POST /visitors\<close> with a fresh, valid visitor ends the process in \<^verbatim>\<open>log.Fatalf\<close>
  instead of answering 500. The delete path answers 500 when the engine refuses
  \<^verbatim>\<open>DELETE\<close>.
\<close>

theorem addVisitor_insert_failure:
  "fst (addVisitor \<lparr>table = [], faults = {InsertRow}, issued = []\<rparr>
          (Some \<lparr>Name = ''Jordy'', Plate = ''ABC-123''\<rparr>)) = Exits \<and>
   fst (removeVisitor
          \<lparr>table = [\<lparr>Name = ''Jordy'', Plate = ''ABC-123''\<rparr>], faults = {DeleteRows}, issued = []\<rparr>
          ''ABC-123'') =
     Returns (Response StatusInternalServerError (Message ''Internal server error''))"
  by (simp add: addVisitor_def removeVisitor_def initializeDB_def checkPlateAlreadyInDB_def
        addNewVisitorToDB_def deleteByPlate_def quoted_def apostrophe_def backslash_def
        received_def)

section \<open>\<^verbatim>\<open>POST /visitors\<close>\<close>

text \<open>
  C3 at a plate with an apostrophe: the table is empty, the body is
  \<^verbatim>\<open>{"name":"Sean","plate":"O'Neil"}\<close>. The existence check pastes the plate into its
  statement, the engine rejects the text, \<^verbatim>\<open>rows\<close> is nil and \<^verbatim>\<open>rows.Next()\<close> panics:
  no 201, and no row is inserted. (For plates that survive pasting, \<open>addVisitor_safe\<close>
  gives the three answers of the claim.)
\<close>

theorem addVisitor_apostrophe:
  "fst (addVisitor \<lparr>table = [], faults = {}, issued = []\<rparr>
          (Some \<lparr>Name = ''Sean'', Plate = ''O'Neil''\<rparr>)) = Panics \<and>
   table (snd (addVisitor \<lparr>table = [], faults = {}, issued = []\<rparr>
          (Some \<lparr>Name = ''Sean'', Plate = ''O'Neil''\<rparr>))) = []"
  by (simp add: addVisitor_def initializeDB_def checkPlateAlreadyInDB_def quoted_def
        apostrophe_def backslash_def received_def)

text \<open>
  C9: when \<^verbatim>\<open>c.BindJSON\<close> fails, \<^verbatim>\<open>addVisitor\<close> returns at once without a reply of its
  own, and the database is what it was: no statement was sent (the existence check did
  not run) and no row was inserted.
\<close>

theorem addVisitor_bind_failure:
  "addVisitor db None = (Returns NoReply, db)"
  by (simp add: addVisitor_def)

section \<open>Deleting by plate\<close>

text \<open>
  C4 at a plate with an apostrophe: the table holds the row of plate \<^verbatim>\<open>O'Neil\<close>, and
  \<^verbatim>\<open>DELETE /visitors/O'Neil\<close> panics in the existence check; the row stays and there is
  no success reply. (For plates that survive pasting, \<open>removeVisitor_safe\<close> gives the
  two answers of the claim.)
\<close>

theorem removeVisitor_apostrophe:
  "fst (removeVisitor \<lparr>table = [\<lparr>Name = ''Sean'', Plate = ''O'Neil''\<rparr>], faults = {}, issued = []\<rparr>
          ''O'Neil'') = Panics \<and>
   table (snd (removeVisitor
          \<lparr>table = [\<lparr>Name = ''Sean'', Plate = ''O'Neil''\<rparr>], faults = {}, issued = []\<rparr>
          ''O'Neil'')) = [\<lparr>Name = ''Sean'', Plate = ''O'Neil''\<rparr>]"
  by (simp add: removeVisitor_def initializeDB_def checkPlateAlreadyInDB_def quoted_def
        apostrophe_def backslash_def received_def)

text \<open>
  For plates that survive pasting, on a database that answers, deleting and then listing by
  a non-empty plate returns the empty list, after the \<^verbatim>\<open>DELETE\<close> statement and after
  the handler \<^verbatim>\<open>removeVisitor\<close> alike.
\<close>

lemma delete_then_list_safe:
  assumes "faults db = {}" and "sql_safe p" and "p \<noteq> []"
  shows "fst (deleteByPlate db p) = Inr []"
    and "fst (getVisitorsFromDB (snd (deleteByPlate db p)) p) = Returns []"
    and "fst (getVisitorsFromDB (snd (removeVisitor db p)) p) = Returns []"
proof -
  have d: "deleteByPlate db p =
      (Inr [], (received db (DeleteWhere (Spliced (quoted p))))
                 \<lparr>table := filter (\<lambda>r. Plate r \<noteq> p) (table db)\<rparr>)"
    using assms by (simp add: deleteByPlate_safe)
  have gone: "filter (\<lambda>r. Plate r = p) (filter (\<lambda>r. Plate r \<noteq> p) (table db)) = []"
    by (simp add: filter_empty_conv)
  have fd: "faults (snd (deleteByPlate db p)) = {}"
    using assms(1) by (simp add: d)
  show "fst (deleteByPlate db p) = Inr []"
    by (simp add: d)
  show "fst (getVisitorsFromDB (snd (deleteByPlate db p)) p) = Returns []"
    using getVisitorsFromDB_healthy [OF fd, of p] assms(3) gone by (simp add: d)
  have fr: "faults (snd (removeVisitor db p)) = {}"
    using assms(1) by (rule faults_removeVisitor)
  have tr: "table (snd (removeVisitor db p)) = filter (\<lambda>r. Plate r \<noteq> p) (table db)"
    using assms(1,2) by (rule removeVisitor_safe(2))
  show "fst (getVisitorsFromDB (snd (removeVisitor db p)) p) = Returns []"
    using assms(3) gone by (simp add: getVisitorsFromDB_healthy [OF fr] tr)
qed


text \<open>
  C8 at a plate with an apostrophe: the table holds the row of plate \<^verbatim>\<open>O'Neil\<close>. The
  \<^verbatim>\<open>DELETE\<close> statement for \<^verbatim>\<open>O'Neil\<close> is rejected and the handler \<^verbatim>\<open>removeVisitor\<close>
  panics in its existence check; after either, listing by \<^verbatim>\<open>O'Neil\<close> (a bound
  parameter) returns the row, not the empty list. (For non-empty plates that survive
  pasting, \<open>delete_then_list_safe\<close> gives the claim.)
\<close>

theorem delete_then_list_apostrophe:
  "fst (deleteByPlate
          \<lparr>table = [\<lparr>Name = ''Sean'', Plate = ''O'Neil''\<rparr>], faults = {}, issued = []\<rparr>
          ''O'Neil'') = Inl SyntaxError \<and>
   fst (getVisitorsFromDB
          (snd (deleteByPlate
                  \<lparr>table = [\<lparr>Name = ''Sean'', Plate = ''O'Neil''\<rparr>], faults = {}, issued = []\<rparr>
                  ''O'Neil''))
          ''O'Neil'') = Returns [\<lparr>Name = ''Sean'', Plate = ''O'Neil''\<rparr>] \<and>
   fst (removeVisitor
          \<lparr>table = [\<lparr>Name = ''Sean'', Plate = ''O'Neil''\<rparr>], faults = {}, issued = []\<rparr>
          ''O'Neil'') = Panics \<and>
   fst (getVisitorsFromDB
          (snd (removeVisitor
                  \<lparr>table = [\<lparr>Name = ''Sean'', Plate = ''O'Neil''\<rparr>], faults = {}, issued = []\<rparr>
                  ''O'Neil''))
          ''O'Neil'') = Returns [\<lparr>Name = ''Sean'', Plate = ''O'Neil''\<rparr>]"
  by (simp add: deleteByPlate_def removeVisitor_def getVisitorsFromDB_def initializeDB_def
        checkPlateAlreadyInDB_def scan_rows_append quoted_def apostrophe_def backslash_def
        received_def)

section \<open>The existence check\<close>

text \<open>
  C7 at a plate with an apostrophe: a row of plate \<^verbatim>\<open>O'Neil\<close> is in the table, and
  \<^verbatim>\<open>checkPlateAlreadyInDB\<close> on \<^verbatim>\<open>O'Neil\<close> does not return true: its statement is rejected
  and the loop panics on the nil rows. (For plates that survive pasting,
  \<open>checkPlateAlreadyInDB_safe\<close> gives the equivalence of the claim.)
\<close>

theorem checkPlateAlreadyInDB_apostrophe:
  "''O'Neil'' \<in> Plate ` set (table
      \<lparr>table = [\<lparr>Name = ''Sean'', Plate = ''O'Neil''\<rparr>], faults = {}, issued = []\<rparr>) \<and>
   fst (checkPlateAlreadyInDB
          \<lparr>table = [\<lparr>Name = ''Sean'', Plate = ''O'Neil''\<rparr>], faults = {}, issued = []\<rparr>
          ''O'Neil'') = Panics"
  by (simp add: checkPlateAlreadyInDB_def quoted_def apostrophe_def backslash_def received_def)

end
